theory Spec2Isabelle
  imports Main
begin

section \<open>The Button component: configuration and rendering\<close>

text \<open>
  The component under study is the React function component \<open>Button\<close>. Its props are a
  record; JavaScript values that may be absent are options. A class attribute, which the
  source builds as one space-separated string, is modelled as the list of its class tokens.
  The class prefix (\<open>settings.prefix\<close> of the styles package) is a parameter \<open>pfx\<close> of every
  definition that builds a class token.
\<close>

subsection \<open>Props\<close>

text \<open>The host given by the \<open>as\<close> prop: a tag name or a component.\<close>

datatype host = Tag string | Component nat

text \<open>\<open>PropTypes.node\<close>: what \<open>children\<close> may hold.\<close>

datatype node_value = Absent | Text string | Num int | Elements "nat list"

text \<open>\<open>size: PropTypes.oneOf(['default', 'field', 'small', 'sm', 'lg', 'xl'])\<close>\<close>

datatype size_variant = Default | Field | Small | Sm | Lg | Xl

text \<open>\<open>tooltipPosition: PropTypes.oneOf(['top', 'right', 'bottom', 'left'])\<close>\<close>

datatype position = Top | Right | Bottom | Left

text \<open>\<open>tooltipAlignment: PropTypes.oneOf(['start', 'center', 'end'])\<close>\<close>

datatype alignment = Start | Center | End

text \<open>\<open>type: PropTypes.oneOf(['button', 'reset', 'submit'])\<close>\<close>

datatype button_type = Button_type | Reset_type | Submit_type

record props =
  children :: node_value
  as_host :: "host option"
  className :: "string list"
  disabled :: bool
  small :: bool
  size_v :: size_variant
  kind :: string
  href :: "string option"
  isSelected :: bool
  tabIndex :: int
  type_attr :: button_type
  renderIcon :: "nat option"
  iconDescription :: "string option"
  hasIconOnly :: bool
  tooltipPosition :: "position option"
  tooltipAlignment :: "alignment option"

text \<open>\<open>Button.defaultProps\<close>, with every other prop absent.\<close>

definition defaultProps :: props where
  "defaultProps =
     \<lparr> children = Absent, as_host = None, className = [], disabled = False, small = False,
       size_v = Default, kind = ''primary'', href = None, isSelected = False, tabIndex = 0,
       type_attr = Button_type, renderIcon = None, iconDescription = None,
       hasIconOnly = False, tooltipPosition = Some Top, tooltipAlignment = Some Center \<rparr>"

subsection \<open>JavaScript truthiness of the values the component tests\<close>

definition truthy_string :: "string \<Rightarrow> bool" where
  "truthy_string s = (s \<noteq> [])"

definition truthy_opt_string :: "string option \<Rightarrow> bool" where
  "truthy_opt_string v = (case v of None \<Rightarrow> False | Some s \<Rightarrow> truthy_string s)"

definition truthy_node :: "node_value \<Rightarrow> bool" where
  "truthy_node c =
     (case c of Absent \<Rightarrow> False | Text s \<Rightarrow> truthy_string s | Num n \<Rightarrow> n \<noteq> 0
      | Elements es \<Rightarrow> True)"

definition truthy_host :: "host option \<Rightarrow> bool" where
  "truthy_host v =
     (case v of None \<Rightarrow> False | Some (Tag s) \<Rightarrow> truthy_string s | Some (Component c) \<Rightarrow> True)"

subsection \<open>Interaction state\<close>

text \<open>
  The three \<open>useState\<close> cells and the two \<open>useRef\<close> cells of one mounted instance.
  \<open>tooltipRef\<close> holds the node of the assistive text, \<open>tooltipTimeout\<close> the handle of the
  last hide timer.
\<close>

record button_state =
  allowTooltipVisibility :: bool
  isHovered :: bool
  isFocused :: bool
  tooltipRef :: "nat option"
  tooltipTimeout :: "nat option"

subsection \<open>Class composition\<close>

text \<open>
  The object literal passed to \<open>classNames\<close> has computed keys, so two of them may be the
  same string; a later assignment to a key already present replaces its value and keeps
  its place.
\<close>

fun upsert :: "(string \<times> bool) list \<Rightarrow> string \<times> bool \<Rightarrow> (string \<times> bool) list" where
  "upsert [] kv = [kv]"
| "upsert ((k', v') # rest) kv =
     (if k' = fst kv then (k', snd kv) # rest else (k', v') # upsert rest kv)"

definition object_literal :: "(string \<times> bool) list \<Rightarrow> (string \<times> bool) list" where
  "object_literal entries = foldl upsert [] entries"

text \<open>\<open>classNames(className, obj)\<close>: the caller's classes, then every key of truthy value.\<close>

definition classNames :: "string list \<Rightarrow> (string \<times> bool) list \<Rightarrow> string list" where
  "classNames cn obj = cn @ map fst (filter snd obj)"

definition position_str :: "position option \<Rightarrow> string" where
  "position_str p =
     (case p of None \<Rightarrow> ''undefined'' | Some Top \<Rightarrow> ''top'' | Some Right \<Rightarrow> ''right''
      | Some Bottom \<Rightarrow> ''bottom'' | Some Left \<Rightarrow> ''left'')"

definition alignment_str :: "alignment option \<Rightarrow> string" where
  "alignment_str a =
     (case a of None \<Rightarrow> ''undefined'' | Some Start \<Rightarrow> ''start'' | Some Center \<Rightarrow> ''center''
      | Some End \<Rightarrow> ''end'')"

definition class_entries :: "string \<Rightarrow> props \<Rightarrow> button_state \<Rightarrow> (string \<times> bool) list" where
  "class_entries pfx p st =
     [ (pfx @ ''--btn'', True),
       (pfx @ ''--btn--field'', size_v p = Field),
       (pfx @ ''--btn--sm'', size_v p = Small \<or> size_v p = Sm \<or> small p),
       (pfx @ ''--btn--lg'', size_v p = Lg),
       (pfx @ ''--btn--xl'', size_v p = Xl),
       (pfx @ ''--btn--'' @ kind p, truthy_string (kind p)),
       (pfx @ ''--btn--disabled'', disabled p),
       (pfx @ ''--tooltip--hidden'', hasIconOnly p \<and> \<not> allowTooltipVisibility st),
       (pfx @ ''--tooltip--visible'', isHovered st),
       (pfx @ ''--btn--icon-only'', hasIconOnly p),
       (pfx @ ''--btn--selected'', hasIconOnly p \<and> isSelected p \<and> kind p = ''ghost''),
       (pfx @ ''--tooltip__trigger'', hasIconOnly p),
       (pfx @ ''--tooltip--a11y'', hasIconOnly p),
       (pfx @ ''--tooltip--'' @ position_str (tooltipPosition p),
          hasIconOnly p \<and> tooltipPosition p \<noteq> None),
       (pfx @ ''--tooltip--align-'' @ alignment_str (tooltipAlignment p),
          hasIconOnly p \<and> tooltipAlignment p \<noteq> None) ]"

definition buttonClasses :: "string \<Rightarrow> props \<Rightarrow> button_state \<Rightarrow> string list" where
  "buttonClasses pfx p st = classNames (className p) (object_literal (class_entries pfx p st))"

subsection \<open>Host element and its props\<close>

datatype attr_value = Null | Bool bool | Str string | Type_value button_type

text \<open>Object spread \<open>{...a, ...b}\<close> on property lists: \<open>b\<close> wins on a shared key.\<close>

fun assign :: "(string \<times> attr_value) list \<Rightarrow> string \<times> attr_value \<Rightarrow> (string \<times> attr_value) list" where
  "assign [] kv = [kv]"
| "assign ((k', v') # rest) kv =
     (if k' = fst kv then (k', snd kv) # rest else (k', v') # assign rest kv)"

definition spread :: "(string \<times> attr_value) list \<Rightarrow> (string \<times> attr_value) list \<Rightarrow> (string \<times> attr_value) list" where
  "spread a b = foldl assign a b"

definition href_value :: "string option \<Rightarrow> attr_value" where
  "href_value h = (case h of None \<Rightarrow> Null | Some s \<Rightarrow> Str s)"

definition anchorProps :: "props \<Rightarrow> (string \<times> attr_value) list" where
  "anchorProps p = [(''href'', href_value (href p))]"

definition buttonProps :: "props \<Rightarrow> (string \<times> attr_value) list" where
  "buttonProps p =
     [ (''disabled'', Bool (disabled p)),
       (''type'', Type_value (type_attr p)),
       (''aria-pressed'', if hasIconOnly p \<and> kind p = ''ghost'' then Bool (isSelected p) else Null) ]"

text \<open>The \<open>component\<close> chosen at lines 164 and 181 to 190.\<close>

definition component :: "props \<Rightarrow> host" where
  "component p =
     (if truthy_host (as_host p) then the (as_host p)
      else if truthy_opt_string (href p) \<and> \<not> disabled p then Tag ''a''
      else Tag ''button'')"

text \<open>The \<open>otherProps\<close> after the same branches.\<close>

definition otherProps :: "props \<Rightarrow> (string \<times> attr_value) list" where
  "otherProps p =
     (if truthy_host (as_host p) then spread (buttonProps p) (anchorProps p)
      else if truthy_opt_string (href p) \<and> \<not> disabled p then anchorProps p
      else buttonProps p)"

text \<open>
  The element that \<open>React.createElement\<close> receives: host, class attribute, tab index, the
  props that depend on the branch, and the assistive text (rendered for an icon-only
  button, with the icon description as its content). The rest props of the caller are
  spread before \<open>className\<close> and \<open>otherProps\<close> and cannot replace them; they are left out.
\<close>

record element =
  el_component :: host
  el_className :: "string list"
  el_tabIndex :: int
  el_props :: "(string \<times> attr_value) list"
  el_assistiveText :: "string option option"

definition Button :: "string \<Rightarrow> props \<Rightarrow> button_state \<Rightarrow> element" where
  "Button pfx p st =
     \<lparr> el_component = component p,
       el_className = buttonClasses pfx p st,
       el_tabIndex = tabIndex p,
       el_props = otherProps p,
       el_assistiveText = (if hasIconOnly p then Some (iconDescription p) else None) \<rparr>"

subsection \<open>Validation of \<open>iconDescription\<close>\<close>

datatype js_error = Error string

definition iconDescription_validator :: "props \<Rightarrow> js_error option" where
  "iconDescription_validator p =
     (if renderIcon p \<noteq> None \<and> \<not> truthy_node (children p)
         \<and> \<not> truthy_opt_string (iconDescription p)
      then Some (Error ''renderIcon property specified without also providing an iconDescription property.'')
      else None)"

section \<open>The page: mounted instances, document listeners, timers\<close>

text \<open>
  The handlers of an instance act on more than its own state: \<open>closeTooltips\<close> edits the
  classes of other elements, the effect installs a listener on the document, and
  \<open>handleMouseLeave\<close> starts a timer. The world below holds what they touch.
  \<^item> \<open>elements\<close>: the elements of the page in document order, each with its class tokens
    as last written; the handlers change them through \<open>closeTooltips\<close> only, and writing
    a fresh render to the page is React's work and is not modelled;
  \<^item> \<open>insts\<close>: the state and refs of every mounted instance;
  \<^item> \<open>listeners\<close>: the \<open>keydown\<close> listeners of the document; the only listener the program
    installs is the \<open>handleEscKeyDown\<close> closure of an instance, named by that instance;
  \<^item> \<open>timers\<close>: the pending timeouts as (handle, due time, instance); the only callback
    the program passes to \<open>setTimeout\<close> is the hide closure of an instance;
  \<^item> \<open>fired\<close>: a log of the timer callbacks that have run, by instance.

  The caller's own \<open>onFocus\<close>, \<open>onBlur\<close>, \<open>onMouseEnter\<close> and \<open>onMouseLeave\<close> run before the
  component's handlers and are arbitrary code of the caller; the model follows the
  component's handlers.
\<close>

record event =
  target :: nat
  currentTarget :: nat

record world =
  elements :: "(nat \<times> string list) list"
  insts :: "nat \<Rightarrow> button_state option"
  nextInst :: nat
  listeners :: "nat list"
  timers :: "(nat \<times> nat \<times> nat) list"
  lastTimer :: nat
  now :: nat
  fired :: "nat list"

definition initial :: "(nat \<times> string list) list \<Rightarrow> world" where
  "initial d =
     \<lparr> elements = d, insts = (\<lambda>i. None), nextInst = 0, listeners = [], timers = [],
       lastTimer = 0, now = 0, fired = [] \<rparr>"

subsection \<open>Collaborators that are not part of the component's file\<close>

text \<open>
  Modelled from the spec: \<open>toggleClass\<close> of \<open>tools/toggleClass\<close> is missing. The spec has the
  close step work "by toggling a shared hidden-class on every matching element except the
  current target"; the call passes the element, the class, and a flag that is true for
  every element but the current target. With the flag the class is put on the element,
  without it the class is taken off.
\<close>

definition toggleClass :: "string list \<Rightarrow> string \<Rightarrow> bool \<Rightarrow> string list" where
  "toggleClass cs name add =
     (if add then (if name \<in> set cs then cs else cs @ [name]) else removeAll name cs)"

text \<open>
  Modelled from the spec: \<open>keys\<close> and \<open>matches\<close> of \<open>internal/keyboard\<close> are missing. The spec
  names "a keyboard-event matcher utility recognizing the Escape key": a keyboard event
  carries a key, and it matches a list of keys when its key is one of them.
\<close>

datatype key_name = Escape | Other_key string

record keyboard_event =
  key :: key_name

definition matches :: "keyboard_event \<Rightarrow> key_name list \<Rightarrow> bool" where
  "matches ev ks = (key ev \<in> set ks)"

text \<open>
  The browser's timers. A handle is a positive integer never given out before; the
  callback is named by the instance whose hide closure it is.
\<close>

definition setTimeout :: "nat \<Rightarrow> nat \<Rightarrow> world \<Rightarrow> nat \<times> world" where
  "setTimeout owner delay w =
     (let t = Suc (lastTimer w)
      in (t, w\<lparr>timers := timers w @ [(t, now w + delay, owner)], lastTimer := t\<rparr>))"

definition clearTimeout :: "nat \<Rightarrow> world \<Rightarrow> world" where
  "clearTimeout t w = w\<lparr>timers := filter (\<lambda>(t', d, i). t' \<noteq> t) (timers w)\<rparr>"

text \<open>\<open>addEventListener\<close> ignores a listener already registered.\<close>

definition addEventListener :: "nat \<Rightarrow> nat list \<Rightarrow> nat list" where
  "addEventListener l ls = (if l \<in> set ls then ls else ls @ [l])"

definition removeEventListener :: "nat \<Rightarrow> nat list \<Rightarrow> nat list" where
  "removeEventListener l ls = remove1 l ls"

text \<open>
  A state setter or a ref assignment of instance \<open>i\<close>. React drops the call of a setter of
  a component that is no longer mounted.
\<close>

definition setState :: "nat \<Rightarrow> (button_state \<Rightarrow> button_state) \<Rightarrow> world \<Rightarrow> world" where
  "setState i f w = (case insts w i of None \<Rightarrow> w | Some s \<Rightarrow> w\<lparr>insts := (insts w)(i \<mapsto> f s)\<rparr>)"

subsection \<open>The handlers of one instance\<close>

definition closeTooltips :: "string \<Rightarrow> event \<Rightarrow> world \<Rightarrow> world" where
  "closeTooltips pfx evt w =
     w\<lparr>elements := map (\<lambda>(n, cs).
                if pfx @ ''--tooltip--a11y'' \<in> set cs
                then (n, toggleClass cs (pfx @ ''--tooltip--hidden'') (n \<noteq> currentTarget evt))
                else (n, cs)) (elements w)\<rparr>"

text \<open>
  A handler reads the state cells as they were at the last render (\<open>s\<close> below) and the
  refs as they are now; between two events the instance has rendered again.
\<close>

definition handleFocus :: "string \<Rightarrow> nat \<Rightarrow> event \<Rightarrow> world \<Rightarrow> world" where
  "handleFocus pfx i evt w =
     (case insts w i of None \<Rightarrow> w
      | Some s \<Rightarrow>
          let w1 = closeTooltips pfx evt w;
              w2 = setState i (\<lambda>c. c\<lparr>isHovered := \<not> isHovered s\<rparr>) w1;
              w3 = setState i (\<lambda>c. c\<lparr>isFocused := True\<rparr>) w2
          in setState i (\<lambda>c. c\<lparr>allowTooltipVisibility := True\<rparr>) w3)"

definition handleBlur :: "nat \<Rightarrow> world \<Rightarrow> world" where
  "handleBlur i w =
     (let w1 = setState i (\<lambda>c. c\<lparr>isHovered := False\<rparr>) w;
          w2 = setState i (\<lambda>c. c\<lparr>isFocused := False\<rparr>) w1
      in setState i (\<lambda>c. c\<lparr>allowTooltipVisibility := False\<rparr>) w2)"

definition handleMouseEnter :: "string \<Rightarrow> nat \<Rightarrow> event \<Rightarrow> world \<Rightarrow> world" where
  "handleMouseEnter pfx i evt w =
     (case insts w i of None \<Rightarrow> w
      | Some s \<Rightarrow>
          let w1 = setState i (\<lambda>c. c\<lparr>isHovered := True\<rparr>) w;
              w2 = (case tooltipTimeout s of None \<Rightarrow> w1
                    | Some t \<Rightarrow> if t = 0 then w1 else clearTimeout t w1)
          in if Some (target evt) = tooltipRef s
             then setState i (\<lambda>c. c\<lparr>allowTooltipVisibility := True\<rparr>) w2
             else setState i (\<lambda>c. c\<lparr>allowTooltipVisibility := True\<rparr>) (closeTooltips pfx evt w2))"

definition handleMouseLeave :: "nat \<Rightarrow> world \<Rightarrow> world" where
  "handleMouseLeave i w =
     (case insts w i of None \<Rightarrow> w
      | Some s \<Rightarrow>
          if \<not> isFocused s
          then (case setTimeout i 100 w of
                  (t, w1) \<Rightarrow> setState i (\<lambda>c. c\<lparr>tooltipTimeout := Some t\<rparr>) w1)
          else w)"

text \<open>The callback given to \<open>setTimeout\<close> at lines 113 to 116.\<close>

definition hideTooltip :: "nat \<Rightarrow> world \<Rightarrow> world" where
  "hideTooltip i w =
     setState i (\<lambda>c. c\<lparr>isHovered := False\<rparr>)
       (setState i (\<lambda>c. c\<lparr>allowTooltipVisibility := False\<rparr>) w)"

definition handleEscKeyDown :: "nat \<Rightarrow> keyboard_event \<Rightarrow> world \<Rightarrow> world" where
  "handleEscKeyDown i ev w =
     (if matches ev [Escape]
      then setState i (\<lambda>c. c\<lparr>isHovered := False\<rparr>)
             (setState i (\<lambda>c. c\<lparr>allowTooltipVisibility := False\<rparr>) w)
      else w)"

subsection \<open>Mounting, unmounting, dispatch and the passing of time\<close>

text \<open>
  Mounting creates the state cells with their initial values and runs the effect, which
  registers the listener. \<open>tip\<close> is the node of the assistive text, present when the
  button is icon-only.
\<close>

definition mount :: "nat option \<Rightarrow> world \<Rightarrow> nat \<times> world" where
  "mount tip w =
     (let i = nextInst w
      in (i, w\<lparr>insts := (insts w)(i \<mapsto>
                   \<lparr> allowTooltipVisibility = True, isHovered = False, isFocused = False,
                     tooltipRef = tip, tooltipTimeout = None \<rparr>),
               nextInst := Suc i,
               listeners := addEventListener i (listeners w)\<rparr>))"

text \<open>Unmounting discards the state and runs the cleanup that the effect returned.\<close>

definition unmount :: "nat \<Rightarrow> world \<Rightarrow> world" where
  "unmount i w =
     (case insts w i of None \<Rightarrow> w
      | Some s \<Rightarrow> w\<lparr>insts := (insts w)(i := None),
                    listeners := removeEventListener i (listeners w)\<rparr>)"

definition dispatchKeyDown :: "keyboard_event \<Rightarrow> world \<Rightarrow> world" where
  "dispatchKeyDown ev w = foldl (\<lambda>v l. handleEscKeyDown l ev v) w (listeners w)"

definition fire :: "world \<Rightarrow> nat \<times> nat \<times> nat \<Rightarrow> world" where
  "fire w tm = (case tm of (t, d, i) \<Rightarrow> (hideTooltip i w)\<lparr>fired := fired w @ [i]\<rparr>)"

text \<open>
  Time passes by \<open>d\<close> milliseconds: every timeout due by then runs, in the order it was
  set (all delays are equal, so that is the order in which they fall due).
\<close>

definition advance :: "nat \<Rightarrow> world \<Rightarrow> world" where
  "advance d w =
     (let t = now w + d;
          ready = filter (\<lambda>(h, due, i). due \<le> t) (timers w);
          rest = filter (\<lambda>(h, due, i). \<not> due \<le> t) (timers w)
      in foldl fire (w\<lparr>now := t, timers := rest\<rparr>) ready)"

datatype action =
    Mount "nat option"
  | Unmount nat
  | Focus nat event
  | Blur nat
  | MouseEnter nat event
  | MouseLeave nat
  | KeyDown keyboard_event
  | Advance nat

fun exec :: "string \<Rightarrow> world \<Rightarrow> action \<Rightarrow> world" where
  "exec pfx w (Mount tip) = snd (mount tip w)"
| "exec pfx w (Unmount i) = unmount i w"
| "exec pfx w (Focus i evt) = handleFocus pfx i evt w"
| "exec pfx w (Blur i) = handleBlur i w"
| "exec pfx w (MouseEnter i evt) = handleMouseEnter pfx i evt w"
| "exec pfx w (MouseLeave i) = handleMouseLeave i w"
| "exec pfx w (KeyDown ev) = dispatchKeyDown ev w"
| "exec pfx w (Advance d) = advance d w"

definition run :: "string \<Rightarrow> world \<Rightarrow> action list \<Rightarrow> world" where
  "run pfx w acts = foldl (exec pfx) w acts"

text \<open>A tooltip shows when its element is a tooltip trigger and does not carry the hidden class.\<close>

definition tooltipShown :: "string \<Rightarrow> nat \<times> string list \<Rightarrow> bool" where
  "tooltipShown pfx el =
     (pfx @ ''--tooltip--a11y'' \<in> set (snd el) \<and> pfx @ ''--tooltip--hidden'' \<notin> set (snd el))"

text \<open>\<open>n\<close> rounds of mounting an instance and unmounting it again.\<close>

fun mount_unmount_cycles :: "nat \<Rightarrow> nat option \<Rightarrow> world \<Rightarrow> world" where
  "mount_unmount_cycles 0 tip w = w"
| "mount_unmount_cycles (Suc n) tip w =
     mount_unmount_cycles n tip (case mount tip w of (i, w1) \<Rightarrow> unmount i w1)"

text \<open>Rounds of pointer-leave, a wait, and pointer-enter, for the waits \<open>ds\<close>.\<close>

definition leave_enter_rounds :: "nat \<Rightarrow> event \<Rightarrow> nat list \<Rightarrow> action list" where
  "leave_enter_rounds i evt ds =
     concat (map (\<lambda>d. [MouseLeave i, Advance d, MouseEnter i evt]) ds)"

definition owned_timers :: "nat \<Rightarrow> world \<Rightarrow> (nat \<times> nat \<times> nat) list" where
  "owned_timers i w = filter (\<lambda>(h, due, j). j = i) (timers w)"

subsection \<open>Auxiliary notions for the proofs\<close>

text \<open>What the hide callback and the Escape handler do to the state cells.\<close>

definition hidden_flags :: "button_state \<Rightarrow> button_state" where
  "hidden_flags c = c\<lparr>allowTooltipVisibility := False, isHovered := False\<rparr>"

text \<open>
  An invariant of every world reached from \<open>initial\<close>: a mounted instance has its listener
  on the document, and no listener is named by an instance yet to be mounted.
\<close>

definition wf :: "world \<Rightarrow> bool" where
  "wf w \<longleftrightarrow>
     (\<forall>i. insts w i \<noteq> None \<longrightarrow> i \<in> set (listeners w)) \<and> (\<forall>l \<in> set (listeners w). l < nextInst w)"

section \<open>Properties of rendering\<close>

lemma map_of_upsert:
  "map_of (upsert obj kv) k = (if k = fst kv then Some (snd kv) else map_of obj k)"
  by (induction obj kv rule: upsert.induct) auto

lemma keys_upsert:
  "map fst (upsert obj kv) = (if fst kv \<in> fst ` set obj then map fst obj else map fst obj @ [fst kv])"
  by (induction obj kv rule: upsert.induct) auto

lemma distinct_upsert: "distinct (map fst obj) \<Longrightarrow> distinct (map fst (upsert obj kv))"
  by (simp add: keys_upsert)

lemma distinct_foldl_upsert:
  "distinct (map fst obj) \<Longrightarrow> distinct (map fst (foldl upsert obj es))"
  by (induction es arbitrary: obj) (simp_all add: distinct_upsert)

lemma map_of_foldl_upsert:
  "map_of (foldl upsert obj es) k =
     (case map_of (rev es) k of None \<Rightarrow> map_of obj k | Some v \<Rightarrow> Some v)"
  by (induction es arbitrary: obj) (auto simp: map_of_upsert split: option.splits)

lemma distinct_object_literal: "distinct (map fst (object_literal es))"
  by (simp add: object_literal_def distinct_foldl_upsert)

lemma map_of_object_literal: "map_of (object_literal es) k = map_of (rev es) k"
  by (simp add: object_literal_def map_of_foldl_upsert split: option.splits)

text \<open>A key is among the classes of the object exactly when its last assignment is truthy.\<close>

lemma key_in_object_classes:
  "k \<in> set (map fst (filter snd (object_literal es))) \<longleftrightarrow> map_of (rev es) k = Some True"
proof -
  have "k \<in> set (map fst (filter snd (object_literal es)))
          \<longleftrightarrow> (k, True) \<in> set (object_literal es)"
    by force
  also have "\<dots> \<longleftrightarrow> map_of (object_literal es) k = Some True"
    using distinct_object_literal [of es] by (auto dest: map_of_SomeD)
  finally show ?thesis by (simp add: map_of_object_literal)
qed

lemma in_buttonClasses:
  "t \<in> set (buttonClasses pfx p st) \<longleftrightarrow>
     t \<in> set (className p) \<or> map_of (rev (class_entries pfx p st)) t = Some True"
  unfolding buttonClasses_def classNames_def set_append Un_iff key_in_object_classes ..

subsection \<open>Host element\<close>

text \<open>
  Claim C3. With no host override, a disabled button that has a navigation target renders
  as a native \<open>button\<close>, and the host is an anchor exactly when a navigation target is
  supplied and the button is not disabled.
\<close>

theorem disabled_link_renders_button:
  "\<not> truthy_host (as_host p) \<Longrightarrow>
     (disabled p \<and> truthy_opt_string (href p) \<longrightarrow> el_component (Button pfx p st) = Tag ''button'')
   \<and> (el_component (Button pfx p st) = Tag ''a'' \<longleftrightarrow> truthy_opt_string (href p) \<and> \<not> disabled p)"
  by (simp add: Button_def component_def)

theorem disabled_link_renders_button_witness:
  "\<not> truthy_host (as_host (defaultProps\<lparr>disabled := True, href := Some ''#''\<rparr>))
   \<and> disabled (defaultProps\<lparr>disabled := True, href := Some ''#''\<rparr>)
   \<and> truthy_opt_string (href (defaultProps\<lparr>disabled := True, href := Some ''#''\<rparr>))
   \<and> el_component (Button ''bx'' (defaultProps\<lparr>disabled := True, href := Some ''#''\<rparr>)
        \<lparr>allowTooltipVisibility = True, isHovered = False, isFocused = False,
          tooltipRef = None, tooltipTimeout = None\<rparr>) = Tag ''button''
   \<and> el_component (Button ''bx'' (defaultProps\<lparr>href := Some ''#''\<rparr>)
        \<lparr>allowTooltipVisibility = True, isHovered = False, isFocused = False,
          tooltipRef = None, tooltipTimeout = None\<rparr>) = Tag ''a''"
proof -
  let ?p = "defaultProps\<lparr>disabled := True, href := Some ''#''\<rparr>"
  let ?q = "defaultProps\<lparr>href := Some ''#''\<rparr>"
  have h: "\<not> truthy_host (as_host ?p)" and k: "\<not> truthy_host (as_host ?q)"
    by (simp_all add: defaultProps_def truthy_host_def)
  have d: "disabled ?p \<and> truthy_opt_string (href ?p)"
    and e: "truthy_opt_string (href ?q) \<and> \<not> disabled ?q"
    by (simp_all add: defaultProps_def truthy_opt_string_def truthy_string_def)
  show ?thesis
    using disabled_link_renders_button [OF h, of "''bx''"]
      disabled_link_renders_button [OF k, of "''bx''"] h d e
    by blast
qed

subsection \<open>Selected state of a ghost icon button\<close>

text \<open>
  Claim C8. An icon-only button of kind \<open>ghost\<close> that is selected carries the selected
  class, and rendered as a button (no host override, no navigation target) it has
  \<open>aria-pressed\<close> true. When icon-only and kind \<open>ghost\<close> do not both hold, the component
  adds no selected class (the class is there only if the caller's own \<open>className\<close> brings
  it) and \<open>aria-pressed\<close> is absent or null.
\<close>

theorem ghost_selected_markup:
  "(hasIconOnly p \<and> kind p = ''ghost'' \<and> isSelected p \<longrightarrow>
       pfx @ ''--btn--selected'' \<in> set (el_className (Button pfx p st))
     \<and> (\<not> truthy_host (as_host p) \<and> \<not> truthy_opt_string (href p) \<longrightarrow>
          el_component (Button pfx p st) = Tag ''button''
        \<and> map_of (el_props (Button pfx p st)) ''aria-pressed'' = Some (Bool True)))
   \<and> (\<not> (hasIconOnly p \<and> kind p = ''ghost'') \<and> pfx @ ''--btn--selected'' \<notin> set (className p) \<longrightarrow>
       pfx @ ''--btn--selected'' \<notin> set (el_className (Button pfx p st))
     \<and> map_of (el_props (Button pfx p st)) ''aria-pressed'' \<in> {None, Some Null})"
  by (simp add: Button_def in_buttonClasses class_entries_def otherProps_def component_def
      buttonProps_def anchorProps_def spread_def)

theorem ghost_selected_markup_witness:
  "''bx--btn--selected'' \<in> set (el_className (Button ''bx''
       (defaultProps\<lparr>kind := ''ghost'', hasIconOnly := True, isSelected := True\<rparr>)
       \<lparr>allowTooltipVisibility = True, isHovered = False, isFocused = False,
         tooltipRef = None, tooltipTimeout = None\<rparr>))
   \<and> map_of (el_props (Button ''bx''
       (defaultProps\<lparr>kind := ''ghost'', hasIconOnly := True, isSelected := True\<rparr>)
       \<lparr>allowTooltipVisibility = True, isHovered = False, isFocused = False,
         tooltipRef = None, tooltipTimeout = None\<rparr>)) ''aria-pressed'' = Some (Bool True)
   \<and> ''bx--btn--selected'' \<notin> set (el_className (Button ''bx''
       (defaultProps\<lparr>kind := ''ghost'', isSelected := True\<rparr>)
       \<lparr>allowTooltipVisibility = True, isHovered = False, isFocused = False,
         tooltipRef = None, tooltipTimeout = None\<rparr>))
   \<and> map_of (el_props (Button ''bx''
       (defaultProps\<lparr>kind := ''ghost'', isSelected := True\<rparr>)
       \<lparr>allowTooltipVisibility = True, isHovered = False, isFocused = False,
         tooltipRef = None, tooltipTimeout = None\<rparr>)) ''aria-pressed'' = Some Null"
proof -
  let ?st = "\<lparr>allowTooltipVisibility = True, isHovered = False, isFocused = False,
              tooltipRef = None, tooltipTimeout = None\<rparr>"
  let ?p = "defaultProps\<lparr>kind := ''ghost'', hasIconOnly := True, isSelected := True\<rparr>"
  let ?q = "defaultProps\<lparr>kind := ''ghost'', isSelected := True\<rparr>"
  have p: "hasIconOnly ?p \<and> kind ?p = ''ghost'' \<and> isSelected ?p"
    and p': "\<not> truthy_host (as_host ?p) \<and> \<not> truthy_opt_string (href ?p)"
    by (simp_all add: defaultProps_def truthy_host_def truthy_opt_string_def)
  have q: "\<not> (hasIconOnly ?q \<and> kind ?q = ''ghost'') \<and> ''bx'' @ ''--btn--selected'' \<notin> set (className ?q)"
    by (simp add: defaultProps_def)
  have null: "map_of (el_props (Button ''bx'' ?q ?st)) ''aria-pressed'' \<noteq> None"
    by (simp add: Button_def otherProps_def buttonProps_def defaultProps_def truthy_host_def
        truthy_opt_string_def)
  from ghost_selected_markup [of ?p "''bx''" ?st] p p'
  have 1: "''bx'' @ ''--btn--selected'' \<in> set (el_className (Button ''bx'' ?p ?st))
           \<and> map_of (el_props (Button ''bx'' ?p ?st)) ''aria-pressed'' = Some (Bool True)"
    by blast
  from ghost_selected_markup [of ?q "''bx''" ?st] q null
  have 2: "''bx'' @ ''--btn--selected'' \<notin> set (el_className (Button ''bx'' ?q ?st))
           \<and> map_of (el_props (Button ''bx'' ?q ?st)) ''aria-pressed'' = Some Null"
    by blast
  from 1 2 show ?thesis by simp
qed

subsection \<open>Validation\<close>

text \<open>
  Claim C9. The validator of \<open>iconDescription\<close> returns an error when an icon renderer is
  given with neither children nor an icon description, and returns no error when an icon
  renderer is given together with children or an icon description.
\<close>

theorem icon_without_description_is_reported:
  "(renderIcon p \<noteq> None \<and> \<not> truthy_node (children p) \<and> \<not> truthy_opt_string (iconDescription p)
      \<longrightarrow> iconDescription_validator p \<noteq> None)
   \<and> (renderIcon p \<noteq> None \<and> (truthy_node (children p) \<or> truthy_opt_string (iconDescription p))
      \<longrightarrow> iconDescription_validator p = None)"
  by (simp add: iconDescription_validator_def)

theorem icon_without_description_is_reported_witness:
  "iconDescription_validator (defaultProps\<lparr>renderIcon := Some 1\<rparr>) \<noteq> None
   \<and> iconDescription_validator (defaultProps\<lparr>renderIcon := Some 1, children := Text ''Add''\<rparr>) = None
   \<and> iconDescription_validator
        (defaultProps\<lparr>renderIcon := Some 1, iconDescription := Some ''Add item''\<rparr>) = None"
proof -
  let ?p = "defaultProps\<lparr>renderIcon := Some 1\<rparr>"
  let ?q = "defaultProps\<lparr>renderIcon := Some 1, children := Text ''Add''\<rparr>"
  let ?r = "defaultProps\<lparr>renderIcon := Some 1, iconDescription := Some ''Add item''\<rparr>"
  have p: "renderIcon ?p \<noteq> None \<and> \<not> truthy_node (children ?p)
             \<and> \<not> truthy_opt_string (iconDescription ?p)"
    by (simp add: defaultProps_def truthy_node_def truthy_opt_string_def)
  have q: "renderIcon ?q \<noteq> None \<and> truthy_node (children ?q)"
    by (simp add: defaultProps_def truthy_node_def truthy_string_def)
  have r: "renderIcon ?r \<noteq> None \<and> truthy_opt_string (iconDescription ?r)"
    by (simp add: defaultProps_def truthy_opt_string_def truthy_string_def)
  show ?thesis
    using icon_without_description_is_reported [of ?p] icon_without_description_is_reported [of ?q]
      icon_without_description_is_reported [of ?r] p q r
    by blast
qed

subsection \<open>The tooltip-visible class\<close>

text \<open>
  Claim C10. Whenever the hovered flag is set, the class list holds the tooltip-visible
  token, for icon-only buttons and for all others alike. The tooltip-hidden, position and
  alignment tokens are different: on a button that is not icon-only the component adds
  none of them (each is there only if the caller's own \<open>className\<close> brings it).
\<close>

theorem tooltip_visible_follows_hovered:
  "(isHovered st \<longrightarrow> pfx @ ''--tooltip--visible'' \<in> set (buttonClasses pfx p st))
   \<and> (\<not> hasIconOnly p \<longrightarrow>
       (\<forall>t \<in> {pfx @ ''--tooltip--hidden'',
               pfx @ ''--tooltip--'' @ position_str (tooltipPosition p),
               pfx @ ''--tooltip--align-'' @ alignment_str (tooltipAlignment p)}.
          t \<in> set (buttonClasses pfx p st) \<longrightarrow> t \<in> set (className p)))"
proof -
  have "map_of (rev (class_entries pfx p st)) (pfx @ ''--tooltip--visible'') = Some (isHovered st)"
    by (simp add: class_entries_def position_str_def alignment_str_def
        split: option.splits position.splits alignment.splits)
  moreover have "\<not> hasIconOnly p \<Longrightarrow>
      map_of (rev (class_entries pfx p st)) (pfx @ ''--tooltip--hidden'') \<noteq> Some True"
    by (simp add: class_entries_def position_str_def alignment_str_def
        split: option.splits position.splits alignment.splits)
  moreover have "\<not> hasIconOnly p \<Longrightarrow>
      map_of (rev (class_entries pfx p st))
        (pfx @ ''--tooltip--'' @ position_str (tooltipPosition p)) \<noteq> Some True"
    by (simp add: class_entries_def position_str_def alignment_str_def
        split: option.splits position.splits alignment.splits)
  moreover have "\<not> hasIconOnly p \<Longrightarrow>
      map_of (rev (class_entries pfx p st))
        (pfx @ ''--tooltip--align-'' @ alignment_str (tooltipAlignment p)) \<noteq> Some True"
    by (simp add: class_entries_def)
  ultimately show ?thesis
    by (simp add: in_buttonClasses)
qed

theorem tooltip_visible_follows_hovered_witness:
  "\<not> hasIconOnly defaultProps
   \<and> ''bx--tooltip--visible'' \<in> set (buttonClasses ''bx'' defaultProps
        \<lparr>allowTooltipVisibility = False, isHovered = True, isFocused = False,
          tooltipRef = None, tooltipTimeout = None\<rparr>)
   \<and> ''bx--tooltip--hidden'' \<notin> set (buttonClasses ''bx'' defaultProps
        \<lparr>allowTooltipVisibility = False, isHovered = True, isFocused = False,
          tooltipRef = None, tooltipTimeout = None\<rparr>)"
proof -
  let ?st = "\<lparr>allowTooltipVisibility = False, isHovered = True, isFocused = False,
              tooltipRef = None, tooltipTimeout = None\<rparr>"
  have h: "isHovered ?st" and i: "\<not> hasIconOnly defaultProps"
    and c: "''bx'' @ ''--tooltip--hidden'' \<notin> set (className defaultProps)"
    by (simp_all add: defaultProps_def)
  from tooltip_visible_follows_hovered [of ?st "''bx''" defaultProps] h i c
  have "''bx'' @ ''--tooltip--visible'' \<in> set (buttonClasses ''bx'' defaultProps ?st)
        \<and> ''bx'' @ ''--tooltip--hidden'' \<notin> set (buttonClasses ''bx'' defaultProps ?st)"
    by blast
  with i show ?thesis by simp
qed

section \<open>Properties of the page\<close>

subsection \<open>What each step leaves alone\<close>

lemma run_Nil [simp]: "run pfx w [] = w"
  by (simp add: run_def)

lemma run_Cons [simp]: "run pfx w (a # acts) = run pfx (exec pfx w a) acts"
  by (simp add: run_def)

lemma run_append: "run pfx w (xs @ ys) = run pfx (run pfx w xs) ys"
  by (simp add: run_def)

lemmas world_eval =
  initial_def mount_def unmount_def addEventListener_def removeEventListener_def
  handleFocus_def handleBlur_def handleMouseEnter_def handleMouseLeave_def hideTooltip_def
  setState_def closeTooltips_def setTimeout_def clearTimeout_def advance_def fire_def
  dispatchKeyDown_def handleEscKeyDown_def matches_def toggleClass_def Let_def

lemma setState_fields [simp]:
  "elements (setState i f w) = elements w"
  "nextInst (setState i f w) = nextInst w"
  "listeners (setState i f w) = listeners w"
  "timers (setState i f w) = timers w"
  "lastTimer (setState i f w) = lastTimer w"
  "now (setState i f w) = now w"
  "fired (setState i f w) = fired w"
  by (simp_all add: setState_def split: option.splits)

lemma insts_setState:
  "insts (setState i f w) j = (if j = i then map_option f (insts w i) else insts w j)"
  by (simp add: setState_def split: option.splits)

lemma closeTooltips_fields [simp]:
  "insts (closeTooltips pfx evt w) = insts w"
  "nextInst (closeTooltips pfx evt w) = nextInst w"
  "listeners (closeTooltips pfx evt w) = listeners w"
  "timers (closeTooltips pfx evt w) = timers w"
  "lastTimer (closeTooltips pfx evt w) = lastTimer w"
  "now (closeTooltips pfx evt w) = now w"
  "fired (closeTooltips pfx evt w) = fired w"
  by (simp_all add: closeTooltips_def)

lemma clearTimeout_fields [simp]:
  "elements (clearTimeout t w) = elements w"
  "insts (clearTimeout t w) = insts w"
  "nextInst (clearTimeout t w) = nextInst w"
  "listeners (clearTimeout t w) = listeners w"
  "lastTimer (clearTimeout t w) = lastTimer w"
  "now (clearTimeout t w) = now w"
  "fired (clearTimeout t w) = fired w"
  by (simp_all add: clearTimeout_def)

lemma elements_closeTooltips_clearTimeout [simp]:
  "elements (closeTooltips pfx evt (clearTimeout t w)) = elements (closeTooltips pfx evt w)"
  by (simp add: closeTooltips_def)

lemma elements_closeTooltips_setState [simp]:
  "elements (closeTooltips pfx evt (setState i f w)) = elements (closeTooltips pfx evt w)"
  by (simp add: closeTooltips_def)

lemma insts_handleFocus:
  "insts w i = Some s \<Longrightarrow>
   insts (handleFocus pfx i evt w) =
     (insts w)(i \<mapsto> s\<lparr>isHovered := \<not> isHovered s, isFocused := True, allowTooltipVisibility := True\<rparr>)"
  by (auto simp: handleFocus_def Let_def insts_setState fun_eq_iff)

lemma elements_handleFocus:
  "insts w i = Some s \<Longrightarrow> elements (handleFocus pfx i evt w) = elements (closeTooltips pfx evt w)"
  by (simp add: handleFocus_def Let_def)

lemma elements_handleMouseEnter:
  "insts w i = Some s \<Longrightarrow> tooltipRef s \<noteq> Some (target evt) \<Longrightarrow>
   elements (handleMouseEnter pfx i evt w) = elements (closeTooltips pfx evt w)"
  by (auto simp: handleMouseEnter_def Let_def split: option.splits)

lemma map_fst_closeTooltips: "map fst (elements (closeTooltips pfx evt w)) = map fst (elements w)"
  by (simp add: closeTooltips_def comp_def case_prod_beta)

lemma a11y_toggleClass:
  "pfx @ ''--tooltip--a11y'' \<in> set (toggleClass cs (pfx @ ''--tooltip--hidden'') b)
     \<longleftrightarrow> pfx @ ''--tooltip--a11y'' \<in> set cs"
  by (simp add: toggleClass_def)

lemma hidden_toggleClass:
  "name \<in> set (toggleClass cs name b) \<longleftrightarrow> b"
  by (simp add: toggleClass_def)

lemma map_of_closeTooltips:
  "map_of (elements (closeTooltips pfx evt w)) n =
     map_option (\<lambda>cs. if pfx @ ''--tooltip--a11y'' \<in> set cs
                       then toggleClass cs (pfx @ ''--tooltip--hidden'') (n \<noteq> currentTarget evt)
                       else cs) (map_of (elements w) n)"
proof -
  have "map_of (map (\<lambda>(n, cs).
                if pfx @ ''--tooltip--a11y'' \<in> set cs
                then (n, toggleClass cs (pfx @ ''--tooltip--hidden'') (n \<noteq> currentTarget evt))
                else (n, cs)) xs) n =
     map_option (\<lambda>cs. if pfx @ ''--tooltip--a11y'' \<in> set cs
                       then toggleClass cs (pfx @ ''--tooltip--hidden'') (n \<noteq> currentTarget evt)
                       else cs) (map_of xs n)" for xs
    by (induction xs) auto
  then show ?thesis by (simp add: closeTooltips_def)
qed

lemma shown_after_close:
  "el \<in> set (elements (closeTooltips pfx evt w)) \<Longrightarrow> tooltipShown pfx el \<Longrightarrow> fst el = currentTarget evt"
  by (auto simp: closeTooltips_def tooltipShown_def a11y_toggleClass hidden_toggleClass
      split: if_splits)

lemma at_most_one_with_key:
  "distinct (map fst xs) \<Longrightarrow> (\<And>x. x \<in> set xs \<Longrightarrow> P x \<Longrightarrow> fst x = c) \<Longrightarrow> length (filter P xs) \<le> 1"
proof (induction xs)
  case Nil
  then show ?case by simp
next
  case (Cons x xs)
  show ?case
  proof (cases "P x")
    case True
    then have "fst x = c" using Cons.prems(2) by simp
    then have "filter P xs = []"
      using Cons.prems by (auto simp: filter_empty_conv) (metis fst_conv image_eqI)
    with True show ?thesis by simp
  next
    case False
    then show ?thesis using Cons by simp
  qed
qed

lemma a11y_in_buttonClasses:
  "hasIconOnly p \<Longrightarrow> pfx @ ''--tooltip--a11y'' \<in> set (buttonClasses pfx p st)"
  by (simp add: in_buttonClasses class_entries_def position_str_def alignment_str_def
      split: option.splits position.splits alignment.splits)

lemma insts_hideTooltip:
  "insts (hideTooltip i w) j = (if j = i then map_option hidden_flags (insts w i) else insts w j)"
  by (cases "insts w i") (simp_all add: hideTooltip_def insts_setState hidden_flags_def)

lemma hideTooltip_fields [simp]:
  "elements (hideTooltip i w) = elements w"
  "nextInst (hideTooltip i w) = nextInst w"
  "listeners (hideTooltip i w) = listeners w"
  "timers (hideTooltip i w) = timers w"
  "lastTimer (hideTooltip i w) = lastTimer w"
  "now (hideTooltip i w) = now w"
  "fired (hideTooltip i w) = fired w"
  by (simp_all add: hideTooltip_def)

lemma fire_fields [simp]:
  "elements (fire w tm) = elements w"
  "nextInst (fire w tm) = nextInst w"
  "listeners (fire w tm) = listeners w"
  "timers (fire w tm) = timers w"
  "lastTimer (fire w tm) = lastTimer w"
  "now (fire w tm) = now w"
  "fired (fire w tm) = fired w @ [snd (snd tm)]"
  by (simp_all add: fire_def split: prod.splits)

lemma insts_fire:
  "insts (fire w tm) j = (if j = snd (snd tm) then map_option hidden_flags (insts w j) else insts w j)"
  by (simp add: fire_def insts_hideTooltip split: prod.splits)

lemma hidden_flags_idem [simp]: "hidden_flags (hidden_flags c) = hidden_flags c"
  by (simp add: hidden_flags_def)

lemma foldl_fire_fields [simp]:
  "elements (foldl fire w tms) = elements w"
  "nextInst (foldl fire w tms) = nextInst w"
  "listeners (foldl fire w tms) = listeners w"
  "timers (foldl fire w tms) = timers w"
  "lastTimer (foldl fire w tms) = lastTimer w"
  "now (foldl fire w tms) = now w"
  "fired (foldl fire w tms) = fired w @ map (\<lambda>tm. snd (snd tm)) tms"
  by (induction tms arbitrary: w; simp)+

lemma insts_foldl_fire:
  "insts (foldl fire w tms) j =
     (if j \<in> (\<lambda>tm. snd (snd tm)) ` set tms then map_option hidden_flags (insts w j) else insts w j)"
  by (induction tms arbitrary: w) (auto simp: insts_fire option.map_comp comp_def)

lemma advance_fields [simp]:
  "elements (advance d w) = elements w"
  "nextInst (advance d w) = nextInst w"
  "listeners (advance d w) = listeners w"
  "timers (advance d w) = filter (\<lambda>(h, due, i). \<not> due \<le> now w + d) (timers w)"
  "lastTimer (advance d w) = lastTimer w"
  "now (advance d w) = now w + d"
  "fired (advance d w) =
     fired w @ map (\<lambda>tm. snd (snd tm)) (filter (\<lambda>(h, due, i). due \<le> now w + d) (timers w))"
  by (simp_all add: advance_def Let_def)

lemma insts_advance:
  "insts (advance d w) j =
     (if j \<in> (\<lambda>tm. snd (snd tm)) ` set (filter (\<lambda>(h, due, i). due \<le> now w + d) (timers w))
      then map_option hidden_flags (insts w j) else insts w j)"
  by (simp add: advance_def Let_def insts_foldl_fire)

lemma insts_handleEscKeyDown:
  "insts (handleEscKeyDown l ev w) j =
     (if matches ev [Escape] \<and> j = l then map_option hidden_flags (insts w j) else insts w j)"
  by (cases "insts w l") (auto simp: handleEscKeyDown_def insts_setState hidden_flags_def)

lemma handleEscKeyDown_fields [simp]:
  "elements (handleEscKeyDown l ev w) = elements w"
  "nextInst (handleEscKeyDown l ev w) = nextInst w"
  "listeners (handleEscKeyDown l ev w) = listeners w"
  "timers (handleEscKeyDown l ev w) = timers w"
  "lastTimer (handleEscKeyDown l ev w) = lastTimer w"
  "now (handleEscKeyDown l ev w) = now w"
  "fired (handleEscKeyDown l ev w) = fired w"
  by (simp_all add: handleEscKeyDown_def)

lemma foldl_esc_fields [simp]:
  "elements (foldl (\<lambda>v l. handleEscKeyDown l ev v) w ls) = elements w"
  "nextInst (foldl (\<lambda>v l. handleEscKeyDown l ev v) w ls) = nextInst w"
  "listeners (foldl (\<lambda>v l. handleEscKeyDown l ev v) w ls) = listeners w"
  "timers (foldl (\<lambda>v l. handleEscKeyDown l ev v) w ls) = timers w"
  "lastTimer (foldl (\<lambda>v l. handleEscKeyDown l ev v) w ls) = lastTimer w"
  "now (foldl (\<lambda>v l. handleEscKeyDown l ev v) w ls) = now w"
  "fired (foldl (\<lambda>v l. handleEscKeyDown l ev v) w ls) = fired w"
  by (induction ls arbitrary: w; simp)+

lemma insts_foldl_esc:
  "insts (foldl (\<lambda>v l. handleEscKeyDown l ev v) w ls) j =
     (if matches ev [Escape] \<and> j \<in> set ls then map_option hidden_flags (insts w j) else insts w j)"
  by (induction ls arbitrary: w) (auto simp: insts_handleEscKeyDown option.map_comp comp_def)

lemma insts_dispatchKeyDown:
  "insts (dispatchKeyDown ev w) j =
     (if matches ev [Escape] \<and> j \<in> set (listeners w) then map_option hidden_flags (insts w j)
      else insts w j)"
  by (simp add: dispatchKeyDown_def insts_foldl_esc)

lemma dispatchKeyDown_fields [simp]:
  "nextInst (dispatchKeyDown ev w) = nextInst w"
  "listeners (dispatchKeyDown ev w) = listeners w"
  "timers (dispatchKeyDown ev w) = timers w"
  "fired (dispatchKeyDown ev w) = fired w"
  by (simp_all add: dispatchKeyDown_def)

lemma wf_initial: "wf (initial d)"
  by (simp add: wf_def initial_def)

lemma handleFocus_frame:
  "listeners (handleFocus pfx i evt w) = listeners w"
  "nextInst (handleFocus pfx i evt w) = nextInst w"
  "insts (handleFocus pfx i evt w) j = None \<longleftrightarrow> insts w j = None"
  by (auto simp: handleFocus_def Let_def insts_setState split: option.splits)

lemma handleBlur_frame:
  "listeners (handleBlur i w) = listeners w"
  "nextInst (handleBlur i w) = nextInst w"
  "insts (handleBlur i w) j = None \<longleftrightarrow> insts w j = None"
  by (auto simp: handleBlur_def Let_def insts_setState split: option.splits)

lemma handleMouseEnter_frame:
  "listeners (handleMouseEnter pfx i evt w) = listeners w"
  "nextInst (handleMouseEnter pfx i evt w) = nextInst w"
  "insts (handleMouseEnter pfx i evt w) j = None \<longleftrightarrow> insts w j = None"
  by (auto simp: handleMouseEnter_def Let_def insts_setState split: option.splits)

lemma handleMouseLeave_frame:
  "listeners (handleMouseLeave i w) = listeners w"
  "nextInst (handleMouseLeave i w) = nextInst w"
  "insts (handleMouseLeave i w) j = None \<longleftrightarrow> insts w j = None"
  by (auto simp: handleMouseLeave_def setTimeout_def Let_def insts_setState split: option.splits)

lemma wf_exec: "wf w \<Longrightarrow> wf (exec pfx w a)"
proof (cases a)
  case (Mount tip)
  assume "wf w"
  then show ?thesis using Mount
    by (auto simp: wf_def mount_def Let_def addEventListener_def less_Suc_eq)
next
  case (Unmount i)
  assume "wf w"
  then show ?thesis using Unmount
    by (auto simp: wf_def unmount_def removeEventListener_def split: option.splits
        dest: notin_set_remove1)
next
  case (Focus i evt)
  assume "wf w"
  then show ?thesis using Focus by (simp add: wf_def handleFocus_frame)
next
  case (Blur i)
  assume "wf w"
  then show ?thesis using Blur by (simp add: wf_def handleBlur_frame)
next
  case (MouseEnter i evt)
  assume "wf w"
  then show ?thesis using MouseEnter by (simp add: wf_def handleMouseEnter_frame)
next
  case (MouseLeave i)
  assume "wf w"
  then show ?thesis using MouseLeave by (simp add: wf_def handleMouseLeave_frame)
next
  case (KeyDown ev)
  assume "wf w"
  then show ?thesis using KeyDown by (simp add: wf_def insts_dispatchKeyDown)
next
  case (Advance d)
  assume "wf w"
  then show ?thesis using Advance by (simp add: wf_def insts_advance)
qed

lemma wf_run: "wf w \<Longrightarrow> wf (run pfx w acts)"
  unfolding run_def by (induction acts arbitrary: w) (simp_all add: wf_exec)

lemma unmount_fields [simp]:
  "timers (unmount i w) = timers w"
  "elements (unmount i w) = elements w"
  "now (unmount i w) = now w"
  "fired (unmount i w) = fired w"
  "lastTimer (unmount i w) = lastTimer w"
  by (simp_all add: unmount_def split: option.splits)

subsection \<open>Receiving focus\<close>

text \<open>
  Claim C1. The claim has the focus handler leave the hovered flag set whatever it was
  before. What the handler does: it runs the close step on the page, sets the focused flag
  and tooltip visibility, and sets the hovered flag to the negation of its value at the
  last render. So the flag ends up set only if it was not set before; a focus event that
  arrives while the pointer is over the control clears it.
\<close>

theorem focus_negates_hovered:
  assumes "insts w i = Some s"
  shows "elements (exec pfx w (Focus i evt)) = elements (closeTooltips pfx evt w)
       \<and> insts (exec pfx w (Focus i evt)) i
           = Some (s\<lparr>isHovered := \<not> isHovered s, isFocused := True, allowTooltipVisibility := True\<rparr>)"
  using assms by (simp add: elements_handleFocus insts_handleFocus)

theorem focus_negates_hovered_witness:
  "insts (run ''bx'' (initial []) [Mount None, MouseEnter 0 \<lparr>target = 1, currentTarget = 1\<rparr>]) 0
     = Some \<lparr>allowTooltipVisibility = True, isHovered = True, isFocused = False,
             tooltipRef = None, tooltipTimeout = None\<rparr>
   \<and> insts (exec ''bx''
        (run ''bx'' (initial []) [Mount None, MouseEnter 0 \<lparr>target = 1, currentTarget = 1\<rparr>])
        (Focus 0 \<lparr>target = 1, currentTarget = 1\<rparr>)) 0
     = Some \<lparr>allowTooltipVisibility = True, isHovered = False, isFocused = True,
             tooltipRef = None, tooltipTimeout = None\<rparr>"
proof -
  let ?e = "\<lparr>target = 1, currentTarget = 1\<rparr>"
  have hovered: "insts (run ''bx'' (initial []) [Mount None, MouseEnter 0 ?e]) 0
                   = Some \<lparr>allowTooltipVisibility = True, isHovered = True, isFocused = False,
                           tooltipRef = None, tooltipTimeout = None\<rparr>"
    by (simp add: world_eval)
  from focus_negates_hovered [OF hovered, of "''bx''" ?e] hovered
  show ?thesis by simp
qed

subsection \<open>Closing the other tooltips\<close>

text \<open>
  Claim C2. Let \<open>B\<close> be a mounted instance that receives focus, or a pointer-enter whose
  target is not its own tooltip text, and let \<open>a\<close> be the element of an icon-only button
  other than the event's current target. The handler's edit of the page is the close step
  on the page as the event found it; after it the element \<open>a\<close> carries the hidden class, the
  current target (if it is a tooltip trigger) does not, and at most one tooltip trigger of
  the whole page is without it. State setters do not touch the page, so all of this holds
  before \<open>B\<close> renders again.
\<close>

theorem hover_or_focus_hides_other_tooltips:
  assumes "insts w b = Some sB"
    and "act = Focus b evt \<or> (act = MouseEnter b evt \<and> tooltipRef sB \<noteq> Some (target evt))"
    and "distinct (map fst (elements w))"
    and "map_of (elements w) a = Some (buttonClasses pfx pA sA)"
    and "hasIconOnly pA"
    and "a \<noteq> currentTarget evt"
  shows "elements (exec pfx w act) = elements (closeTooltips pfx evt w)
       \<and> (\<exists>cs. map_of (elements (exec pfx w act)) a = Some cs \<and> pfx @ ''--tooltip--hidden'' \<in> set cs)
       \<and> (\<forall>cs. map_of (elements w) (currentTarget evt) = Some cs \<and> pfx @ ''--tooltip--a11y'' \<in> set cs
              \<longrightarrow> (\<exists>cs'. map_of (elements (exec pfx w act)) (currentTarget evt) = Some cs'
                        \<and> pfx @ ''--tooltip--a11y'' \<in> set cs'
                        \<and> pfx @ ''--tooltip--hidden'' \<notin> set cs'))
       \<and> length (filter (tooltipShown pfx) (elements (exec pfx w act))) \<le> 1"
proof -
  have d: "elements (exec pfx w act) = elements (closeTooltips pfx evt w)"
    using assms(1,2) by (auto simp: elements_handleFocus elements_handleMouseEnter)
  have "distinct (map fst (elements (closeTooltips pfx evt w)))"
    using assms(3) by (simp add: map_fst_closeTooltips)
  then have one: "length (filter (tooltipShown pfx) (elements (closeTooltips pfx evt w))) \<le> 1"
    by (rule at_most_one_with_key) (rule shown_after_close)
  have "map_of (elements (closeTooltips pfx evt w)) a =
          Some (toggleClass (buttonClasses pfx pA sA) (pfx @ ''--tooltip--hidden'') True)"
    using assms(4,5,6) by (simp add: map_of_closeTooltips a11y_in_buttonClasses)
  then have other: "\<exists>cs. map_of (elements (closeTooltips pfx evt w)) a = Some cs
                         \<and> pfx @ ''--tooltip--hidden'' \<in> set cs"
    by (simp add: hidden_toggleClass)
  have own: "\<exists>cs'. map_of (elements (closeTooltips pfx evt w)) (currentTarget evt) = Some cs'
                   \<and> pfx @ ''--tooltip--a11y'' \<in> set cs' \<and> pfx @ ''--tooltip--hidden'' \<notin> set cs'"
    if "map_of (elements w) (currentTarget evt) = Some cs \<and> pfx @ ''--tooltip--a11y'' \<in> set cs" for cs
    using that by (simp add: map_of_closeTooltips a11y_toggleClass hidden_toggleClass)
  from own have own': "\<forall>cs. map_of (elements w) (currentTarget evt) = Some cs \<and> pfx @ ''--tooltip--a11y'' \<in> set cs
              \<longrightarrow> (\<exists>cs'. map_of (elements (closeTooltips pfx evt w)) (currentTarget evt) = Some cs'
                        \<and> pfx @ ''--tooltip--a11y'' \<in> set cs'
                        \<and> pfx @ ''--tooltip--hidden'' \<notin> set cs')"
    by blast
  show ?thesis
    unfolding d using one other own' by blast
qed

theorem hover_or_focus_hides_other_tooltips_witness:
  "''bx--tooltip--hidden'' \<notin> set (buttonClasses ''bx'' (defaultProps\<lparr>hasIconOnly := True\<rparr>)
       \<lparr>allowTooltipVisibility = True, isHovered = True, isFocused = False,
         tooltipRef = Some 11, tooltipTimeout = None\<rparr>)
   \<and> (\<exists>cs. map_of (elements 
      (exec ''bx''
         (run ''bx''
            (initial
               [(1, buttonClasses ''bx'' (defaultProps\<lparr>hasIconOnly := True\<rparr>)
                      \<lparr>allowTooltipVisibility = True, isHovered = True, isFocused = False,
                        tooltipRef = Some 11, tooltipTimeout = None\<rparr>),
                (2, [''bx--btn'', ''bx--tooltip--a11y'', ''bx--tooltip--hidden''])])
            [Mount (Some 11), Mount (Some 12)])
         (MouseEnter 1 \<lparr>target = 2, currentTarget = 2\<rparr>))) 1 = Some cs
        \<and> ''bx--tooltip--hidden'' \<in> set cs)
   \<and> (\<exists>cs. map_of (elements 
      (exec ''bx''
         (run ''bx''
            (initial
               [(1, buttonClasses ''bx'' (defaultProps\<lparr>hasIconOnly := True\<rparr>)
                      \<lparr>allowTooltipVisibility = True, isHovered = True, isFocused = False,
                        tooltipRef = Some 11, tooltipTimeout = None\<rparr>),
                (2, [''bx--btn'', ''bx--tooltip--a11y'', ''bx--tooltip--hidden''])])
            [Mount (Some 11), Mount (Some 12)])
         (MouseEnter 1 \<lparr>target = 2, currentTarget = 2\<rparr>))) 2 = Some cs
        \<and> ''bx--tooltip--a11y'' \<in> set cs \<and> ''bx--tooltip--hidden'' \<notin> set cs)
   \<and> length (filter (tooltipShown ''bx'') (elements 
      (exec ''bx''
         (run ''bx''
            (initial
               [(1, buttonClasses ''bx'' (defaultProps\<lparr>hasIconOnly := True\<rparr>)
                      \<lparr>allowTooltipVisibility = True, isHovered = True, isFocused = False,
                        tooltipRef = Some 11, tooltipTimeout = None\<rparr>),
                (2, [''bx--btn'', ''bx--tooltip--a11y'', ''bx--tooltip--hidden''])])
            [Mount (Some 11), Mount (Some 12)])
         (MouseEnter 1 \<lparr>target = 2, currentTarget = 2\<rparr>)))) \<le> 1"
proof -
  let ?pA = "defaultProps\<lparr>hasIconOnly := True\<rparr>"
  let ?sA = "\<lparr>allowTooltipVisibility = True, isHovered = True, isFocused = False,
              tooltipRef = Some 11, tooltipTimeout = None\<rparr>"
  let ?sB = "\<lparr>allowTooltipVisibility = True, isHovered = False, isFocused = False,
              tooltipRef = Some 12, tooltipTimeout = None\<rparr>"
  let ?evt = "\<lparr>target = 2, currentTarget = 2\<rparr>"
  let ?w = "run ''bx''
              (initial [(1, buttonClasses ''bx'' ?pA ?sA),
                        (2, [''bx--btn'', ''bx--tooltip--a11y'', ''bx--tooltip--hidden''])])
              [Mount (Some 11), Mount (Some 12)]"
  have 1: "insts ?w 1 = Some ?sB"
    by (simp add: world_eval)
  have 2: "MouseEnter 1 ?evt = Focus 1 ?evt
             \<or> (MouseEnter 1 ?evt = MouseEnter 1 ?evt \<and> tooltipRef ?sB \<noteq> Some (target ?evt))"
    by simp
  have 3: "distinct (map fst (elements ?w))"
    by (simp add: world_eval)
  have 4: "map_of (elements ?w) 1 = Some (buttonClasses ''bx'' ?pA ?sA)"
    by (simp add: world_eval)
  have 5: "hasIconOnly ?pA"
    by (simp add: defaultProps_def)
  have 6: "(1::nat) \<noteq> currentTarget ?evt"
    by simp
  have 7: "map_of (elements ?w) (currentTarget ?evt)
             = Some [''bx--btn'', ''bx--tooltip--a11y'', ''bx--tooltip--hidden'']
           \<and> ''bx'' @ ''--tooltip--a11y'' \<in> set [''bx--btn'', ''bx--tooltip--a11y'', ''bx--tooltip--hidden'']"
    by (simp add: world_eval)
  have shown: "''bx'' @ ''--tooltip--hidden'' \<notin> set (buttonClasses ''bx'' ?pA ?sA)"
    by (simp add: in_buttonClasses class_entries_def defaultProps_def position_str_def
        alignment_str_def)
  note close = hover_or_focus_hides_other_tooltips [OF 1 2 3 4 5 6]
  from close have hid: "\<exists>cs. map_of (elements (exec ''bx'' ?w (MouseEnter 1 ?evt))) 1 = Some cs
                         \<and> ''bx'' @ ''--tooltip--hidden'' \<in> set cs"
    and one: "length (filter (tooltipShown ''bx'') (elements (exec ''bx'' ?w (MouseEnter 1 ?evt)))) \<le> 1"
    by blast+
  from close 7 have own: "\<exists>cs'. map_of (elements (exec ''bx'' ?w (MouseEnter 1 ?evt))) (currentTarget ?evt) = Some cs'
                         \<and> ''bx'' @ ''--tooltip--a11y'' \<in> set cs'
                         \<and> ''bx'' @ ''--tooltip--hidden'' \<notin> set cs'"
    by blast
  from hid have hid': "\<exists>cs. map_of (elements (exec ''bx'' ?w (MouseEnter 1 ?evt))) 1 = Some cs
                         \<and> ''bx--tooltip--hidden'' \<in> set cs"
    by simp
  from own have own': "\<exists>cs. map_of (elements (exec ''bx'' ?w (MouseEnter 1 ?evt))) 2 = Some cs
                         \<and> ''bx--tooltip--a11y'' \<in> set cs \<and> ''bx--tooltip--hidden'' \<notin> set cs"
    by simp
  from shown have shown': "''bx--tooltip--hidden'' \<notin> set (buttonClasses ''bx'' ?pA ?sA)"
    by simp
  from shown' hid' own' one show ?thesis by blast
qed

subsection \<open>The Escape key\<close>

text \<open>
  Claim C4. In every world reached from the initial one, a key-down event that matches
  Escape leaves every mounted instance with tooltip visibility and the hovered flag both
  off; the focused flag keeps its value, whatever it was.
\<close>

theorem escape_hides_every_mounted_tooltip:
  assumes "insts (run pfx (initial d) acts) i = Some s" and "matches ev [Escape]"
  shows "\<exists>s'. insts (exec pfx (run pfx (initial d) acts) (KeyDown ev)) i = Some s'
            \<and> \<not> allowTooltipVisibility s' \<and> \<not> isHovered s' \<and> isFocused s' = isFocused s"
proof -
  have "wf (run pfx (initial d) acts)"
    by (rule wf_run) (rule wf_initial)
  with assms(1) have "i \<in> set (listeners (run pfx (initial d) acts))"
    by (simp add: wf_def)
  with assms show ?thesis
    by (simp add: insts_dispatchKeyDown hidden_flags_def)
qed

theorem escape_hides_every_mounted_tooltip_witness:
  "insts (run ''bx'' (initial []) [Mount None, Focus 0 \<lparr>target = 1, currentTarget = 1\<rparr>]) 0
     = Some \<lparr>allowTooltipVisibility = True, isHovered = True, isFocused = True,
             tooltipRef = None, tooltipTimeout = None\<rparr>
   \<and> matches \<lparr>key = Escape\<rparr> [Escape]
   \<and> (\<exists>s'. insts (exec ''bx''
               (run ''bx'' (initial []) [Mount None, Focus 0 \<lparr>target = 1, currentTarget = 1\<rparr>])
               (KeyDown \<lparr>key = Escape\<rparr>)) 0 = Some s'
          \<and> \<not> allowTooltipVisibility s' \<and> \<not> isHovered s' \<and> isFocused s')"
proof -
  let ?s = "\<lparr>allowTooltipVisibility = True, isHovered = True, isFocused = True,
             tooltipRef = None, tooltipTimeout = None\<rparr>"
  have 1: "insts (run ''bx'' (initial []) [Mount None, Focus 0 \<lparr>target = 1, currentTarget = 1\<rparr>]) 0
             = Some ?s"
    by (simp add: world_eval)
  have 2: "matches \<lparr>key = Escape\<rparr> [Escape]"
    by (simp add: matches_def)
  from escape_hides_every_mounted_tooltip [OF 1 2] 1 2
  show ?thesis by simp
qed

subsection \<open>Mounting and unmounting\<close>

lemma listeners_mount_unmount:
  assumes "wf w"
  shows "listeners (snd (mount tip w)) = listeners w @ [fst (mount tip w)]"
    and "listeners (unmount (fst (mount tip w)) (snd (mount tip w))) = listeners w"
    and "wf (unmount (fst (mount tip w)) (snd (mount tip w)))"
proof -
  have fresh: "nextInst w \<notin> set (listeners w)"
    using assms by (auto simp: wf_def)
  then show "listeners (snd (mount tip w)) = listeners w @ [fst (mount tip w)]"
    by (simp add: mount_def Let_def addEventListener_def)
  from fresh show "listeners (unmount (fst (mount tip w)) (snd (mount tip w))) = listeners w"
    by (simp add: mount_def unmount_def Let_def addEventListener_def removeEventListener_def
        remove1_append)
  have "wf (exec pfx (exec pfx w (Mount tip)) (Unmount (fst (mount tip w))))" for pfx
    using assms by (intro wf_exec)
  then show "wf (unmount (fst (mount tip w)) (snd (mount tip w)))" by simp
qed

lemma listeners_cycles: "wf w \<Longrightarrow> listeners (mount_unmount_cycles n tip w) = listeners w"
proof (induction n arbitrary: w)
  case 0
  then show ?case by simp
next
  case (Suc n)
  let ?w = "unmount (fst (mount tip w)) (snd (mount tip w))"
  have "listeners (mount_unmount_cycles n tip ?w) = listeners ?w"
    using Suc.prems by (intro Suc.IH listeners_mount_unmount)
  then show ?case
    using Suc.prems by (simp add: case_prod_beta listeners_mount_unmount)
qed

text \<open>
  Claim C5. In every world reached from the initial one, mounting adds one listener to
  the document, unmounting that instance gives back the listeners there were before, and
  so does any number of mount and unmount rounds.
\<close>

theorem mount_unmount_restores_listeners:
  assumes "w = run pfx (initial d) acts"
  shows "listeners (snd (mount tip w)) = listeners w @ [fst (mount tip w)]
       \<and> listeners (unmount (fst (mount tip w)) (snd (mount tip w))) = listeners w
       \<and> listeners (mount_unmount_cycles n tip w) = listeners w"
proof -
  have "wf w" unfolding assms by (rule wf_run) (rule wf_initial)
  then show ?thesis
    by (simp add: listeners_mount_unmount listeners_cycles)
qed

theorem mount_unmount_restores_listeners_witness:
  "listeners (run ''bx'' (initial []) [Mount None]) = [0]
   \<and> listeners (snd (mount None (run ''bx'' (initial []) [Mount None]))) = [0, 1]
   \<and> listeners (unmount 1 (snd (mount None (run ''bx'' (initial []) [Mount None])))) = [0]
   \<and> listeners (mount_unmount_cycles 3 None (run ''bx'' (initial []) [Mount None])) = [0]"
proof -
  let ?w = "run ''bx'' (initial []) [Mount None]"
  have l: "listeners ?w = [0]" and i: "fst (mount None ?w) = 1"
    by (simp_all add: world_eval)
  from mount_unmount_restores_listeners [OF refl, of None "''bx''" "[]" "[Mount None]" 3] l i
  show ?thesis by simp
qed

subsection \<open>The hide timer\<close>

lemma handleMouseLeave_unfocused:
  assumes "insts w i = Some s" and "\<not> isFocused s"
  shows "timers (handleMouseLeave i w) = timers w @ [(Suc (lastTimer w), now w + 100, i)]"
    and "insts (handleMouseLeave i w) = (insts w)(i \<mapsto> s\<lparr>tooltipTimeout := Some (Suc (lastTimer w))\<rparr>)"
    and "fired (handleMouseLeave i w) = fired w"
    and "now (handleMouseLeave i w) = now w"
  using assms by (auto simp: handleMouseLeave_def setTimeout_def Let_def insts_setState fun_eq_iff)

lemma handleMouseLeave_focused:
  "insts w i = Some s \<Longrightarrow> isFocused s \<Longrightarrow> handleMouseLeave i w = w"
  by (simp add: handleMouseLeave_def)

lemma handleMouseEnter_effect:
  assumes "insts w i = Some s"
  shows "insts (handleMouseEnter pfx i evt w) =
           (insts w)(i \<mapsto> s\<lparr>isHovered := True, allowTooltipVisibility := True\<rparr>)"
    and "timers (handleMouseEnter pfx i evt w) =
           (case tooltipTimeout s of None \<Rightarrow> timers w
            | Some t \<Rightarrow> if t = 0 then timers w else filter (\<lambda>(t', d, j). t' \<noteq> t) (timers w))"
    and "fired (handleMouseEnter pfx i evt w) = fired w"
    and "now (handleMouseEnter pfx i evt w) = now w"
  using assms
  by (auto simp: handleMouseEnter_def Let_def insts_setState fun_eq_iff clearTimeout_def
      split: option.splits)

lemma owned_timers_empty_iff: "owned_timers i w = [] \<longleftrightarrow> i \<notin> (\<lambda>tm. snd (snd tm)) ` set (timers w)"
  by (force simp: owned_timers_def filter_empty_conv)

text \<open>While an instance owns no pending timer, the passing of time leaves it alone.\<close>

lemma advance_without_own_timer:
  assumes "owned_timers i w = []"
  shows "insts (advance d w) i = insts w i"
    and "count_list (fired (advance d w)) i = count_list (fired w) i"
    and "owned_timers i (advance d w) = []"
proof -
  have no: "i \<notin> (\<lambda>tm. snd (snd tm)) ` set (timers w)"
    using assms by (simp add: owned_timers_empty_iff)
  then show "insts (advance d w) i = insts w i"
    by (auto simp: insts_advance)
  have "i \<notin> set (map (\<lambda>tm. snd (snd tm)) (filter (\<lambda>(h, due, i). due \<le> now w + d) (timers w)))"
    using no by auto
  then show "count_list (fired (advance d w)) i = count_list (fired w) i"
    by (simp add: count_list_0_iff)
  show "owned_timers i (advance d w) = []"
    using no by (auto simp: owned_timers_empty_iff)
qed

text \<open>One round: the pointer leaves, less than 100 ms pass, the pointer enters again.\<close>

lemma leave_enter_round:
  fixes pfx :: string and evt :: event
  assumes "insts w i = Some s" and "owned_timers i w = []" and "d < 100"
  defines "w3 \<equiv> run pfx w [MouseLeave i, Advance d, MouseEnter i evt]"
  shows "owned_timers i w3 = []"
    and "count_list (fired w3) i = count_list (fired w) i"
    and "\<exists>s'. insts w3 i = Some s' \<and> isHovered s' \<and> allowTooltipVisibility s' \<and> isFocused s' = isFocused s"
proof -
  have no: "i \<notin> (\<lambda>tm. snd (snd tm)) ` set (timers w)"
    using assms(2) by (simp add: owned_timers_empty_iff)
  have "owned_timers i w3 = []
      \<and> count_list (fired w3) i = count_list (fired w) i
      \<and> (\<exists>s'. insts w3 i = Some s' \<and> isHovered s' \<and> allowTooltipVisibility s' \<and> isFocused s' = isFocused s)"
  proof (cases "isFocused s")
    case True
    let ?w2 = "advance d w"
    have w3: "w3 = handleMouseEnter pfx i evt ?w2"
      using assms(1) True by (simp add: w3_def handleMouseLeave_focused)
    have s2: "insts ?w2 i = Some s"
      using assms(1,2) by (simp add: advance_without_own_timer)
    have no2: "i \<notin> (\<lambda>tm. snd (snd tm)) ` set (timers ?w2)"
      using advance_without_own_timer(3) [OF assms(2), of d] unfolding owned_timers_empty_iff .
    have a: "owned_timers i w3 = []"
      unfolding w3 owned_timers_empty_iff handleMouseEnter_effect(2) [OF s2]
      using no2 by (auto split: option.splits)
    have b: "count_list (fired w3) i = count_list (fired w) i"
      unfolding w3 handleMouseEnter_effect(3) [OF s2]
      using assms(2) by (rule advance_without_own_timer(2))
    have c: "\<exists>s'. insts w3 i = Some s' \<and> isHovered s' \<and> allowTooltipVisibility s' \<and> isFocused s' = isFocused s"
      unfolding w3 handleMouseEnter_effect(1) [OF s2] by simp
    from a b c show ?thesis by blast
  next
    case False
    let ?t = "Suc (lastTimer w)"
    let ?w1 = "handleMouseLeave i w"
    let ?w2 = "advance d ?w1"
    let ?s1 = "s\<lparr>tooltipTimeout := Some ?t\<rparr>"
    note leave = handleMouseLeave_unfocused [OF assms(1) False]
    have w3: "w3 = handleMouseEnter pfx i evt ?w2"
      by (simp add: w3_def)
    have s2: "insts ?w2 i = Some ?s1"
      using no assms(3) by (auto simp: insts_advance leave)
    have t3: "timers w3 = filter (\<lambda>(t', d, j). t' \<noteq> ?t) (filter (\<lambda>(h, due, j). \<not> due \<le> now w + d) (timers w))"
      unfolding w3 handleMouseEnter_effect(2) [OF s2] using assms(3) by (simp add: leave)
    have a: "owned_timers i w3 = []"
      unfolding owned_timers_empty_iff t3 using no by auto
    have "i \<notin> set (map (\<lambda>tm. snd (snd tm)) (filter (\<lambda>(h, due, j). due \<le> now w + d) (timers w)))"
      using no by auto
    then have b: "count_list (fired w3) i = count_list (fired w) i"
      unfolding w3 handleMouseEnter_effect(3) [OF s2]
      using assms(3) by (simp add: leave count_list_0_iff del: set_map)
    have c: "\<exists>s'. insts w3 i = Some s' \<and> isHovered s' \<and> allowTooltipVisibility s' \<and> isFocused s' = isFocused s"
      unfolding w3 handleMouseEnter_effect(1) [OF s2] by simp
    from a b c show ?thesis by blast
  qed
  then show "owned_timers i w3 = []"
    and "count_list (fired w3) i = count_list (fired w) i"
    and "\<exists>s'. insts w3 i = Some s' \<and> isHovered s' \<and> allowTooltipVisibility s' \<and> isFocused s' = isFocused s"
    by blast+
qed

lemma leave_enter_rounds_Cons:
  "leave_enter_rounds i evt (d # ds) =
     [MouseLeave i, Advance d, MouseEnter i evt] @ leave_enter_rounds i evt ds"
  by (simp add: leave_enter_rounds_def)

lemma rapid_rounds_never_hide:
  fixes pfx :: string and evt :: event
  assumes "insts w i = Some s" and "owned_timers i w = []" and "\<forall>d \<in> set ds. d < 100"
  defines "w' \<equiv> run pfx w (leave_enter_rounds i evt ds)"
  shows "owned_timers i w' = [] \<and> count_list (fired w') i = count_list (fired w) i
       \<and> (\<exists>s'. insts w' i = Some s' \<and> isFocused s' = isFocused s
              \<and> (ds \<noteq> [] \<longrightarrow> isHovered s' \<and> allowTooltipVisibility s'))"
  unfolding w'_def using assms(1,2,3)
proof (induction ds arbitrary: w s)
  case Nil
  then show ?case by (simp add: leave_enter_rounds_def)
next
  case (Cons d ds)
  let ?w3 = "run pfx w [MouseLeave i, Advance d, MouseEnter i evt]"
  have d: "d < 100" using Cons.prems(3) by simp
  note round = leave_enter_round [OF Cons.prems(1,2) d, of pfx evt]
  from round(3) obtain s3 where s3: "insts ?w3 i = Some s3" "isHovered s3"
    "allowTooltipVisibility s3" "isFocused s3 = isFocused s"
    by blast
  have rest: "\<forall>d \<in> set ds. d < 100" using Cons.prems(3) by simp
  note IH = Cons.IH [OF s3(1) round(1) rest]
  have run: "run pfx w (leave_enter_rounds i evt (d # ds)) = run pfx ?w3 (leave_enter_rounds i evt ds)"
    by (simp only: leave_enter_rounds_Cons run_append)
  show ?case
  proof (cases ds)
    case Nil
    then show ?thesis
      unfolding run using round s3 by (simp add: leave_enter_rounds_def)
  next
    case (Cons d' ds')
    then show ?thesis
      unfolding run using IH round(2) s3(4) by auto
  qed
qed

lemma leave_then_wait_fires:
  assumes "insts w i = Some s" and "\<not> isFocused s" and "100 \<le> d"
  shows "\<exists>s'. insts (run pfx w [MouseLeave i, Advance d]) i = Some s'
            \<and> \<not> allowTooltipVisibility s' \<and> \<not> isHovered s'"
proof -
  note leave = handleMouseLeave_unfocused [OF assms(1,2)]
  have "(Suc (lastTimer w), now w + 100, i)
          \<in> set (filter (\<lambda>(h, due, j). due \<le> now (handleMouseLeave i w) + d) (timers (handleMouseLeave i w)))"
    using assms(3) by (simp add: leave)
  then have "i \<in> (\<lambda>tm. snd (snd tm)) `
       set (filter (\<lambda>(h, due, j). due \<le> now (handleMouseLeave i w) + d) (timers (handleMouseLeave i w)))"
    by force
  then have "insts (advance d (handleMouseLeave i w)) i
               = map_option hidden_flags (insts (handleMouseLeave i w) i)"
    by (simp only: insts_advance if_True)
  then show ?thesis
    by (simp add: leave hidden_flags_def)
qed

lemma leave_then_short_wait_keeps_state:
  assumes "insts w i = Some s" and "\<not> isFocused s" and "d < 100" and "owned_timers i w = []"
  shows "insts (run pfx w [MouseLeave i, Advance d]) i = Some (s\<lparr>tooltipTimeout := Some (Suc (lastTimer w))\<rparr>)"
proof -
  note leave = handleMouseLeave_unfocused [OF assms(1,2)]
  have "i \<notin> (\<lambda>tm. snd (snd tm)) ` set (timers w)"
    using assms(4) by (simp add: owned_timers_empty_iff)
  then show ?thesis
    using assms(3) by (auto simp: insts_advance leave)
qed

lemma enter_cancels_pending_timer:
  assumes "insts w i = Some s" and "\<not> isFocused s" and "d < 100"
  shows "Suc (lastTimer w) \<notin> fst ` set (timers (run pfx w [MouseLeave i, Advance d, MouseEnter i evt]))"
proof -
  note leave = handleMouseLeave_unfocused [OF assms(1,2)]
  let ?w2 = "advance d (handleMouseLeave i w)"
  obtain s2 where s2: "insts ?w2 i = Some s2" "tooltipTimeout s2 = Some (Suc (lastTimer w))"
    by (cases "i \<in> (\<lambda>tm. snd (snd tm)) `
         set (filter (\<lambda>(h, due, j). due \<le> now (handleMouseLeave i w) + d) (timers (handleMouseLeave i w)))")
      (simp_all only: insts_advance if_True if_False leave, simp_all add: hidden_flags_def)
  have "timers (handleMouseEnter pfx i evt ?w2) =
          filter (\<lambda>(t', d, j). t' \<noteq> Suc (lastTimer w)) (timers ?w2)"
    by (simp only: handleMouseEnter_effect(2) [OF s2(1)] s2(2)) simp
  then show ?thesis by auto
qed

text \<open>
  Claim C6. For a mounted instance that is not focused, a pointer-leave changes no flag
  at once and sets one timer, due 100 ms later; once at least 100 ms have passed, tooltip
  visibility and the hovered flag are off; before that (the instance owning no older
  timer) the state is as the pointer-leave left it; and a pointer-enter before the 100 ms
  are over removes the timer. For a focused instance a pointer-leave changes nothing.
  Rounds of pointer-leave, a wait below 100 ms and pointer-enter, followed by a wait of any
  length, run no hide callback of the instance, and after at least one round the hovered
  flag and tooltip visibility are on. The last part is for an instance that owns no
  pending timer when the rounds begin, as is the case whenever pointer-leave and
  pointer-enter have alternated.
\<close>

theorem pointer_leave_hide_is_delayed_and_cancellable:
  fixes pfx :: string and evt :: event
  assumes "insts w i = Some s"
  shows "(\<not> isFocused s \<longrightarrow>
            timers (exec pfx w (MouseLeave i)) = timers w @ [(Suc (lastTimer w), now w + 100, i)]
          \<and> insts (exec pfx w (MouseLeave i)) i = Some (s\<lparr>tooltipTimeout := Some (Suc (lastTimer w))\<rparr>)
          \<and> (\<forall>d. 100 \<le> d \<longrightarrow>
                (\<exists>s'. insts (run pfx w [MouseLeave i, Advance d]) i = Some s'
                      \<and> \<not> allowTooltipVisibility s' \<and> \<not> isHovered s'))
          \<and> (\<forall>d. d < 100 \<and> owned_timers i w = [] \<longrightarrow>
                insts (run pfx w [MouseLeave i, Advance d]) i
                  = Some (s\<lparr>tooltipTimeout := Some (Suc (lastTimer w))\<rparr>))
          \<and> (\<forall>d. d < 100 \<longrightarrow>
                Suc (lastTimer w)
                  \<notin> fst ` set (timers (run pfx w [MouseLeave i, Advance d, MouseEnter i evt]))))
       \<and> (isFocused s \<longrightarrow> exec pfx w (MouseLeave i) = w)
       \<and> (owned_timers i w = [] \<and> (\<forall>d \<in> set ds. d < 100) \<longrightarrow>
            count_list (fired (run pfx w (leave_enter_rounds i evt ds @ [Advance d']))) i
              = count_list (fired w) i
          \<and> (\<exists>s'. insts (run pfx w (leave_enter_rounds i evt ds @ [Advance d'])) i = Some s'
                  \<and> (ds \<noteq> [] \<longrightarrow> isHovered s' \<and> allowTooltipVisibility s')))"
proof (intro conjI impI allI)
  assume nf: "\<not> isFocused s"
  show "timers (exec pfx w (MouseLeave i)) = timers w @ [(Suc (lastTimer w), now w + 100, i)]"
    by (simp add: handleMouseLeave_unfocused [OF assms nf])
  show "insts (exec pfx w (MouseLeave i)) i = Some (s\<lparr>tooltipTimeout := Some (Suc (lastTimer w))\<rparr>)"
    by (simp add: handleMouseLeave_unfocused [OF assms nf])
  show "\<exists>s'. insts (run pfx w [MouseLeave i, Advance d]) i = Some s'
            \<and> \<not> allowTooltipVisibility s' \<and> \<not> isHovered s'" if "100 \<le> d" for d
    using assms nf that by (rule leave_then_wait_fires)
  show "insts (run pfx w [MouseLeave i, Advance d]) i
          = Some (s\<lparr>tooltipTimeout := Some (Suc (lastTimer w))\<rparr>)"
    if "d < 100 \<and> owned_timers i w = []" for d
    using leave_then_short_wait_keeps_state [OF assms nf, of d pfx] that by blast
  show "Suc (lastTimer w)
          \<notin> fst ` set (timers (run pfx w [MouseLeave i, Advance d, MouseEnter i evt]))"
    if "d < 100" for d
    using assms nf that by (rule enter_cancels_pending_timer)
next
  assume "isFocused s"
  with assms show "exec pfx w (MouseLeave i) = w"
    by (simp add: handleMouseLeave_focused)
next
  assume a: "owned_timers i w = [] \<and> (\<forall>d \<in> set ds. d < 100)"
  let ?w' = "run pfx w (leave_enter_rounds i evt ds)"
  from a have own: "owned_timers i w = []" and short: "\<forall>d \<in> set ds. d < 100"
    by simp_all
  note rounds = rapid_rounds_never_hide [OF assms own short, of pfx evt]
  have run: "run pfx w (leave_enter_rounds i evt ds @ [Advance d']) = advance d' ?w'"
    by (simp add: run_append)
  from rounds have own': "owned_timers i ?w' = []" by blast
  show "count_list (fired (run pfx w (leave_enter_rounds i evt ds @ [Advance d']))) i
          = count_list (fired w) i"
    unfolding run using rounds by (simp only: advance_without_own_timer(2) [OF own'])
  show "\<exists>s'. insts (run pfx w (leave_enter_rounds i evt ds @ [Advance d'])) i = Some s'
            \<and> (ds \<noteq> [] \<longrightarrow> isHovered s' \<and> allowTooltipVisibility s')"
    unfolding run advance_without_own_timer(1) [OF own'] using rounds by blast
qed

theorem pointer_leave_hide_is_delayed_and_cancellable_witness:
  "timers (exec ''bx''
      (run ''bx'' (initial []) [Mount None, MouseEnter 0 \<lparr>target = 1, currentTarget = 1\<rparr>])
      (MouseLeave 0)) = [(1, 100, 0)]
   \<and> (\<exists>s'. insts (run ''bx''
         (run ''bx'' (initial []) [Mount None, MouseEnter 0 \<lparr>target = 1, currentTarget = 1\<rparr>])
         [MouseLeave 0, Advance 100]) 0 = Some s'
        \<and> \<not> allowTooltipVisibility s' \<and> \<not> isHovered s')
   \<and> 1 \<notin> fst ` set (timers (run ''bx''
         (run ''bx'' (initial []) [Mount None, MouseEnter 0 \<lparr>target = 1, currentTarget = 1\<rparr>])
         [MouseLeave 0, Advance 99, MouseEnter 0 \<lparr>target = 1, currentTarget = 1\<rparr>]))
   \<and> count_list (fired (run ''bx''
         (run ''bx'' (initial []) [Mount None, MouseEnter 0 \<lparr>target = 1, currentTarget = 1\<rparr>])
         (leave_enter_rounds 0 \<lparr>target = 1, currentTarget = 1\<rparr> [10, 50, 99] @ [Advance 1000]))) 0 = 0
   \<and> (\<exists>s'. insts (run ''bx''
         (run ''bx'' (initial []) [Mount None, MouseEnter 0 \<lparr>target = 1, currentTarget = 1\<rparr>])
         (leave_enter_rounds 0 \<lparr>target = 1, currentTarget = 1\<rparr> [10, 50, 99] @ [Advance 1000])) 0
           = Some s'
        \<and> isHovered s' \<and> allowTooltipVisibility s')
   \<and> exec ''bx''
        (run ''bx'' (initial []) [Mount None, Focus 0 \<lparr>target = 1, currentTarget = 1\<rparr>])
        (MouseLeave 0)
      = run ''bx'' (initial []) [Mount None, Focus 0 \<lparr>target = 1, currentTarget = 1\<rparr>]"
proof -
  let ?e = "\<lparr>target = 1, currentTarget = 1\<rparr>"
  let ?w = "run ''bx'' (initial []) [Mount None, MouseEnter 0 ?e]"
  let ?s = "\<lparr>allowTooltipVisibility = True, isHovered = True, isFocused = False,
             tooltipRef = None, tooltipTimeout = None\<rparr>"
  let ?v = "run ''bx'' (initial []) [Mount None, Focus 0 ?e]"
  let ?t = "\<lparr>allowTooltipVisibility = True, isHovered = True, isFocused = True,
             tooltipRef = None, tooltipTimeout = None\<rparr>"
  have w: "insts ?w 0 = Some ?s" and v: "insts ?v 0 = Some ?t"
    by (simp_all add: world_eval)
  have facts: "\<not> isFocused ?s" "isFocused ?t" "timers ?w = []" "lastTimer ?w = 0" "now ?w = 0"
    "fired ?w = []" "owned_timers 0 ?w = []" "\<forall>d \<in> set [10, 50, 99::nat]. d < 100"
    by (simp_all add: world_eval owned_timers_def)
  from pointer_leave_hide_is_delayed_and_cancellable [OF w, of "''bx''" ?e "[10, 50, 99]" 1000]
    pointer_leave_hide_is_delayed_and_cancellable [OF v, of "''bx''" ?e "[]" 0] facts
  show ?thesis by simp
qed

subsection \<open>The hide timer and unmounting\<close>

text \<open>
  Claim C7, as stated, fails: the cleanup of the effect removes the listener and nothing
  else. After mount, pointer-leave and unmount the timer is still pending, and 100 ms
  later its callback runs although the instance is gone.
\<close>

theorem hide_timer_fires_after_unmount:
  "timers (run ''bx'' (initial []) [Mount None, MouseLeave 0, Unmount 0]) = [(1, 100, 0)]
   \<and> insts (run ''bx'' (initial []) [Mount None, MouseLeave 0, Unmount 0]) 0 = None
   \<and> fired (run ''bx'' (initial []) [Mount None, MouseLeave 0, Unmount 0]) = []
   \<and> fired (run ''bx'' (initial []) [Mount None, MouseLeave 0, Unmount 0, Advance 100]) = [0]"
  by (simp add: world_eval)

text \<open>
  Claim C7, amended. Unmounting leaves the pending timers as they are. A timer set by a
  pointer-leave is still pending after the instance is unmounted and its callback runs
  when it falls due; the setters it calls find no mounted instance, so the unmounted
  instance stays without state.
\<close>

theorem unmount_leaves_hide_timer_pending:
  assumes "insts w i = Some s" and "\<not> isFocused s"
  shows "timers (exec pfx w (Unmount i)) = timers w
       \<and> (Suc (lastTimer w), now w + 100, i) \<in> set (timers (run pfx w [MouseLeave i, Unmount i]))
       \<and> insts (run pfx w [MouseLeave i, Unmount i]) i = None
       \<and> length (fired w) < length (fired (run pfx w [MouseLeave i, Unmount i, Advance 100]))
       \<and> last (fired (run pfx w [MouseLeave i, Unmount i, Advance 100])) = i
       \<and> insts (run pfx w [MouseLeave i, Unmount i, Advance 100]) i = None"
proof -
  note leave = handleMouseLeave_unfocused [OF assms]
  have gone: "insts (unmount i (handleMouseLeave i w)) i = None"
    by (simp add: unmount_def leave)
  show ?thesis
    by (simp add: leave gone insts_advance)
qed

theorem unmount_leaves_hide_timer_pending_witness:
  "(1, 100, 0) \<in> set (timers (run ''bx''
       (run ''bx'' (initial []) [Mount None, MouseEnter 0 \<lparr>target = 1, currentTarget = 1\<rparr>])
       [MouseLeave 0, Unmount 0]))
   \<and> last (fired (run ''bx''
       (run ''bx'' (initial []) [Mount None, MouseEnter 0 \<lparr>target = 1, currentTarget = 1\<rparr>])
       [MouseLeave 0, Unmount 0, Advance 100])) = 0
   \<and> insts (run ''bx''
       (run ''bx'' (initial []) [Mount None, MouseEnter 0 \<lparr>target = 1, currentTarget = 1\<rparr>])
       [MouseLeave 0, Unmount 0, Advance 100]) 0 = None"
proof -
  let ?e = "\<lparr>target = 1, currentTarget = 1\<rparr>"
  let ?w = "run ''bx'' (initial []) [Mount None, MouseEnter 0 ?e]"
  let ?s = "\<lparr>allowTooltipVisibility = True, isHovered = True, isFocused = False,
             tooltipRef = None, tooltipTimeout = None\<rparr>"
  have w: "insts ?w 0 = Some ?s"
    by (simp add: world_eval)
  have nf: "\<not> isFocused ?s" and facts: "lastTimer ?w = 0" "now ?w = 0"
    by (simp_all add: world_eval)
  from unmount_leaves_hide_timer_pending [OF w nf, of "''bx''"] facts
  show ?thesis by simp
qed

end
